theory Spec2Isabelle
  imports Main
begin

section \<open>Templates and the store of their collections\<close>

text \<open>
  A Go map value is \<open>nil\<close> or a reference to a mutable table. Two templates may hold
  the same table, so the tables live in a store, addressed by references. Each of the
  three collections has its own value type, hence its own heap.
\<close>

type_synonym ref = nat

type_synonym 'v gomap = "string \<rightharpoonup> 'v"

type_synonym 'v heap = "ref \<Rightarrow> 'v gomap"

text \<open>
  Reading a \<open>nil\<close> map (a lookup, a \<open>range\<close>) behaves as reading an empty table.
  Assigning into a \<open>nil\<close> map panics; that is part of \<open>mergeEntry\<close> below.
\<close>

definition tableOf :: "'v heap \<Rightarrow> ref option \<Rightarrow> 'v gomap" where
  "tableOf h m = (case m of None \<Rightarrow> Map.empty | Some r \<Rightarrow> h r)"

text \<open>
  Modelled from the spec: the struct \<open>gocf.Template\<close> is declared outside the sources
  at hand. The spec's data model gives it three mappings keyed by logical name
  (Resources, Mappings, Outputs); \<open>safeMergeTemplates\<close> reads exactly these three fields
  and never assigns them. A field is \<open>None\<close> when the map is \<open>nil\<close>, as all three are in
  the zero value of the struct.
\<close>

record template =
  Resources :: "ref option"
  Mappings :: "ref option"
  Outputs :: "ref option"

record ('r, 'm, 'o) store =
  resourcesAt :: "'r heap"
  mappingsAt :: "'m heap"
  outputsAt :: "'o heap"

section \<open>safeMergeTemplates\<close>

text \<open>
  Go leaves the iteration order of \<open>range\<close> over a map unspecified. The order is a
  parameter: a list of keys that enumerates the table once each.
\<close>

definition rangeOrder :: "'v gomap \<Rightarrow> string list \<Rightarrow> bool" where
  "rangeOrder m ks \<longleftrightarrow> distinct ks \<and> set ks = dom m"

text \<open>The runtime error of an assignment into a \<open>nil\<close> map.\<close>

definition nilMapPanic :: string where
  "nilMapPanic = ''assignment to entry in nil map''"

text \<open>
  One iteration of a merge loop, for the key \<open>eachKey\<close>. The loop state is the heap, the
  list \<open>mergeErrors\<close>, and the panic raised so far, after which nothing more runs. The
  entry is read from the source table as it is in the current store (an entry that is
  gone is not produced); \<open>fmt\<close> is the text before \<open>%s\<close> in the loop's format string.
\<close>

definition mergeEntry ::
  "string \<Rightarrow> ref option \<Rightarrow> ref option \<Rightarrow> 'v heap \<times> string list \<times> string option \<Rightarrow> string \<Rightarrow>
   'v heap \<times> string list \<times> string option" where
  "mergeEntry fmt src dst st eachKey =
     (case st of (h, mergeErrors, panic) \<Rightarrow>
        if panic \<noteq> None then st
        else
          (case tableOf h src eachKey of
             None \<Rightarrow> st
           | Some eachValue \<Rightarrow>
               (if tableOf h dst eachKey \<noteq> None
                then (h, mergeErrors @ [fmt @ eachKey], None)
                else
                  (case dst of
                     None \<Rightarrow> (h, mergeErrors, Some nilMapPanic)
                   | Some d \<Rightarrow> (h(d := (h d)(eachKey \<mapsto> eachValue)), mergeErrors, None)))))"

definition mergeRange ::
  "string \<Rightarrow> ref option \<Rightarrow> ref option \<Rightarrow> string list \<Rightarrow> 'v heap \<times> string list \<times> string option \<Rightarrow>
   'v heap \<times> string list \<times> string option" where
  "mergeRange fmt src dst ks st = foldl (mergeEntry fmt src dst) st ks"

definition resourceFmt :: string where
  "resourceFmt = ''Duplicate CloudFormation resource name: ''"

definition mappingFmt :: string where
  "mappingFmt = ''Duplicate CloudFormation Mapping name: ''"

definition outputFmt :: string where
  "outputFmt = ''Duplicate CloudFormation output key name: ''"

definition collisionsHeader :: string where
  "collisionsHeader = ''Failed to update template. The following collisions were found:''"

text \<open>The line \<open>logger.Error("\t" + eachError)\<close> writes.\<close>

definition errorLine :: "string \<Rightarrow> string" where
  "errorLine eachError = CHR 0x09 # eachError"

text \<open>
  How a call ends: it returns an error (\<open>None\<close> is Go's \<open>nil\<close>), or it panics with a
  runtime error. What it leaves behind: the store and the lines written with
  \<open>logger.Error\<close>.
\<close>

datatype ending = Returned "string option" | Panicked string

record ('r, 'm, 'o) mergeResult =
  storeAfter :: "('r, 'm, 'o) store"
  errorLog :: "string list"
  ending :: ending

definition safeMergeTemplates ::
  "string list \<Rightarrow> string list \<Rightarrow> string list \<Rightarrow> template \<Rightarrow> template \<Rightarrow>
   ('r, 'm, 'o) store \<Rightarrow> ('r, 'm, 'o) mergeResult" where
  "safeMergeTemplates rks mks oks sourceTemplate destTemplate s =
     (case mergeRange resourceFmt (Resources sourceTemplate) (Resources destTemplate) rks
             (resourcesAt s, [], None) of (rh, errs1, panic1) \<Rightarrow>
      case mergeRange mappingFmt (Mappings sourceTemplate) (Mappings destTemplate) mks
             (mappingsAt s, errs1, panic1) of (mh, errs2, panic2) \<Rightarrow>
      case mergeRange outputFmt (Outputs sourceTemplate) (Outputs destTemplate) oks
             (outputsAt s, errs2, panic2) of (oh, mergeErrors, panic3) \<Rightarrow>
      (case panic3 of
         Some runtimeError \<Rightarrow>
           \<lparr>storeAfter = \<lparr>resourcesAt = rh, mappingsAt = mh, outputsAt = oh\<rparr>,
            errorLog = [],
            ending = Panicked runtimeError\<rparr>
       | None \<Rightarrow>
           (if length mergeErrors > 0
            then \<lparr>storeAfter = \<lparr>resourcesAt = rh, mappingsAt = mh, outputsAt = oh\<rparr>,
                  errorLog = collisionsHeader # map errorLine mergeErrors,
                  ending = Returned (Some ''Template merge failed'')\<rparr>
            else \<lparr>storeAfter = \<lparr>resourcesAt = rh, mappingsAt = mh, outputsAt = oh\<rparr>,
                  errorLog = [],
                  ending = Returned None\<rparr>)))"

text \<open>The keys of the source that the destination already has, in iteration order.\<close>

definition collisions :: "'v gomap \<Rightarrow> string list \<Rightarrow> string list" where
  "collisions d ks = filter (\<lambda>k. d k \<noteq> None) ks"

text \<open>The messages collected in \<open>mergeErrors\<close> by the three loops, in order.\<close>

definition mergeErrorsOf ::
  "string list \<Rightarrow> string list \<Rightarrow> string list \<Rightarrow> template \<Rightarrow> ('r, 'm, 'o) store \<Rightarrow> string list" where
  "mergeErrorsOf rks mks oks destTemplate s =
     map ((@) resourceFmt) (collisions (tableOf (resourcesAt s) (Resources destTemplate)) rks) @
     map ((@) mappingFmt) (collisions (tableOf (mappingsAt s) (Mappings destTemplate)) mks) @
     map ((@) outputFmt) (collisions (tableOf (outputsAt s) (Outputs destTemplate)) oks)"

text \<open>
  A destination map can receive a source map when it is allocated, or when the source
  map has no entry to assign. A call can proceed without a panic when this holds in
  all three collections.
\<close>

definition receives :: "'v heap \<Rightarrow> ref option \<Rightarrow> ref option \<Rightarrow> bool" where
  "receives h src dst \<longleftrightarrow> dst \<noteq> None \<or> dom (tableOf h src) = {}"

definition mergeable :: "('r, 'm, 'o) store \<Rightarrow> template \<Rightarrow> template \<Rightarrow> bool" where
  "mergeable s sourceTemplate destTemplate \<longleftrightarrow>
     receives (resourcesAt s) (Resources sourceTemplate) (Resources destTemplate) \<and>
     receives (mappingsAt s) (Mappings sourceTemplate) (Mappings destTemplate) \<and>
     receives (outputsAt s) (Outputs sourceTemplate) (Outputs destTemplate)"

text \<open>The heap after a loop that ran to its end.\<close>

definition mergedHeap :: "'v heap \<Rightarrow> ref option \<Rightarrow> ref option \<Rightarrow> 'v heap" where
  "mergedHeap h src dst =
     (case dst of None \<Rightarrow> h | Some d \<Rightarrow> h(d := tableOf h src ++ h d))"

section \<open>Resource properties and their outputs\<close>

text \<open>
  Modelled from the spec: the property types of the library \<open>gocf\<close> are declared outside
  the sources at hand. They are structs whose methods have value receivers, so the
  interface \<open>gocf.ResourceProperties\<close> holds such a struct by value or by pointer.
  \<open>gocfStruct\<close> has one constructor for each struct the switch of \<open>resourceOutputs\<close>
  names and \<open>OtherStruct\<close> for every other one, with its type name. The only field the
  code reads is the table's \<open>StreamSpecification\<close>, a pointer (\<open>None\<close> is \<open>nil\<close>).
\<close>

datatype 'ss gocfStruct =
    IAMRole
  | DynamoDBTable (StreamSpecification: "'ss option")
  | KinesisStream
  | Route53RecordSet
  | S3Bucket
  | SNSTopic
  | SQSQueue
  | OtherStruct string

datatype 'ss resourceProperties =
    ByValue "'ss gocfStruct"
  | ByPointer "'ss gocfStruct"

text \<open>The dynamic type's name as \<open>%T\<close> prints it; the library's package is \<open>cloudformation\<close>.\<close>

fun structName :: "'ss gocfStruct \<Rightarrow> string" where
  "structName IAMRole = ''cloudformation.IAMRole''"
| "structName (DynamoDBTable streamSpecification) = ''cloudformation.DynamoDBTable''"
| "structName KinesisStream = ''cloudformation.KinesisStream''"
| "structName Route53RecordSet = ''cloudformation.Route53RecordSet''"
| "structName S3Bucket = ''cloudformation.S3Bucket''"
| "structName SNSTopic = ''cloudformation.SNSTopic''"
| "structName SQSQueue = ''cloudformation.SQSQueue''"
| "structName (OtherStruct typeName) = typeName"

fun goTypeName :: "'ss resourceProperties \<Rightarrow> string" where
  "goTypeName (ByValue t) = structName t"
| "goTypeName (ByPointer t) = ''*'' @ structName t"

text \<open>Of a template's resource entry the code reads only \<open>Properties\<close>.\<close>

record 'ss resource =
  Properties :: "'ss resourceProperties"

text \<open>
  The result is the attribute list, the error (always \<open>nil\<close>) and the warnings written
  to the logger, each with its \<open>ResourceType\<close> field and its message. The cases of the
  switch name the struct types themselves, so a struct held by pointer takes the
  default case.
\<close>

definition notImplemented ::
  "'ss resourceProperties \<Rightarrow> string list \<Rightarrow> string list \<times> string option \<times> (string \<times> string) list" where
  "notImplemented typedResource outputProps =
     (outputProps, None,
      [(goTypeName typedResource, ''Discovery information for dependency not yet implemented'')])"

definition resourceOutputs ::
  "string \<Rightarrow> 'ss resourceProperties \<Rightarrow> string list \<times> string option \<times> (string \<times> string) list" where
  "resourceOutputs resourceName resource =
     (let outputProps = [] in
      case resource of
        ByValue IAMRole \<Rightarrow> (outputProps, None, [])
      | ByValue (DynamoDBTable streamSpecification) \<Rightarrow>
          (if streamSpecification \<noteq> None then (outputProps @ [''StreamArn''], None, [])
           else (outputProps, None, []))
      | ByValue KinesisStream \<Rightarrow> (outputProps @ [''Arn''], None, [])
      | ByValue Route53RecordSet \<Rightarrow> (outputProps, None, [])
      | ByValue S3Bucket \<Rightarrow> (outputProps @ [''DomainName'', ''WebsiteURL''], None, [])
      | ByValue SNSTopic \<Rightarrow> (outputProps @ [''TopicName''], None, [])
      | ByValue SQSQueue \<Rightarrow> (outputProps @ [''Arn'', ''QueueName''], None, [])
      | ByValue (OtherStruct typeName) \<Rightarrow> notImplemented resource outputProps
      | ByPointer typedStruct \<Rightarrow> notImplemented resource outputProps)"

section \<open>newCloudFormationResource\<close>

text \<open>
  A call either returns to its caller or ends the process with an exit status.
  \<open>Fatal\<close> of the logging library writes the entry and then calls \<open>os.Exit(1)\<close>, so the
  statement after it is never reached. The library's factory \<open>gocf.NewResourceByType\<close>
  is a parameter; \<open>None\<close> is its \<open>nil\<close>.
\<close>

datatype 'a outcome = Returns 'a | Exits nat

text \<open>\<open>loggerFatal rest\<close> is a call of \<open>Fatal\<close> followed by the statements \<open>rest\<close>.\<close>

definition loggerFatal :: "'a outcome \<Rightarrow> 'a outcome" where
  "loggerFatal rest = Exits 1"

definition newCloudFormationResource ::
  "(string \<Rightarrow> 'p option) \<Rightarrow> string \<Rightarrow> ('p option \<times> string option) outcome" where
  "newCloudFormationResource NewResourceByType resourceType =
     (case NewResourceByType resourceType of
        None \<Rightarrow>
          loggerFatal
            (Returns (None, Some (''Unsupported CustomResourceType: '' @ resourceType)))
      | Some resProps \<Rightarrow> Returns (Some resProps, None))"

section \<open>discoveryResourceInfoForDependency\<close>

record discoveryDataTemplate =
  ResourceID :: string
  ResourceType :: string
  ResourceProperties :: string

definition tab :: string where
  "tab = [CHR 0x09]"

definition discoveryDataForResourceDependency :: string where
  \<open>discoveryDataForResourceDependency =
     ''\<newline>'' @
     tab @ ''{\<newline>'' @
     tab @ tab @ ''"ResourceID" : "<< .ResourceID >>",\<newline>'' @
     tab @ tab @ ''"ResourceRef" : "{"Ref":"<< .ResourceID >>"}",\<newline>'' @
     tab @ tab @ ''"ResourceType" : "<< .ResourceType >>",\<newline>'' @
     tab @ tab @ ''"Properties" : {\<newline>'' @
     tab @ tab @ tab @ ''<< .ResourceProperties >>\<newline>'' @
     tab @ tab @ ''}\<newline>'' @
     tab @ ''}\<newline>''\<close>

text \<open>
  The part of \<open>text/template\<close> that the pattern uses, with the delimiters \<open><<\<close> and
  \<open>>>\<close>: literal text, and actions that select one field of the data. Nothing is
  escaped. An action left open is a parse error; an action that is not one of the
  data's fields is an error of \<open>Execute\<close>, which leaves the output written so far.
\<close>

datatype node = TextNode string | ActionNode string

fun parseNodes :: "bool \<Rightarrow> string \<Rightarrow> string \<Rightarrow> node list option" where
  "parseNodes inAction acc [] =
     (if inAction then None else Some [TextNode (rev acc)])"
| "parseNodes inAction acc [c] =
     (if inAction then None else Some [TextNode (rev (c # acc))])"
| "parseNodes inAction acc (c # d # cs) =
     (if \<not> inAction \<and> [c, d] = ''<<''
      then map_option ((#) (TextNode (rev acc))) (parseNodes True [] cs)
      else if inAction \<and> [c, d] = ''>>''
      then map_option ((#) (ActionNode (rev acc))) (parseNodes False [] cs)
      else parseNodes inAction (c # acc) (d # cs))"

definition parseTemplate :: "string \<Rightarrow> string + node list" where
  "parseTemplate text =
     (case parseNodes False [] text of
        None \<Rightarrow> Inl ''template: discoveryResourceData: unclosed action''
      | Some nodes \<Rightarrow> Inr nodes)"

definition trimSpace :: "string \<Rightarrow> string" where
  "trimSpace s =
     rev (dropWhile (\<lambda>c. c = CHR '' '') (rev (dropWhile (\<lambda>c. c = CHR '' '') s)))"

definition evalField :: "discoveryDataTemplate \<Rightarrow> string \<Rightarrow> string option" where
  "evalField data field =
     (if field = ''.ResourceID'' then Some (ResourceID data)
      else if field = ''.ResourceType'' then Some (ResourceType data)
      else if field = ''.ResourceProperties'' then Some (ResourceProperties data)
      else None)"

fun executeNodes ::
  "discoveryDataTemplate \<Rightarrow> node list \<Rightarrow> string \<Rightarrow> string \<times> string option" where
  "executeNodes data [] buf = (buf, None)"
| "executeNodes data (TextNode t # nodes) buf = executeNodes data nodes (buf @ t)"
| "executeNodes data (ActionNode a # nodes) buf =
     (case evalField data (trimSpace a) of
        None \<Rightarrow>
          (buf, Some (''template: discoveryResourceData: can't evaluate field '' @ trimSpace a))
      | Some v \<Rightarrow> executeNodes data nodes (buf @ v))"

text \<open>The \<open>fmt.Sprintf\<close> of the loop over the outputs, and \<open>strings.Join\<close>.\<close>

definition quotedAttr :: "string \<Rightarrow> string \<Rightarrow> string" where
  \<open>quotedAttr logicalResourceName eachOutput =
     ''"'' @ eachOutput @ ''" :"{ "Fn::GetAtt" : [ "'' @ logicalResourceName @
     ''", "'' @ eachOutput @ ''" ] }"''\<close>

fun join :: "string list \<Rightarrow> string \<Rightarrow> string" where
  "join [] sep = []"
| "join [x] sep = x"
| "join (x # y # ys) sep = x @ sep @ join (y # ys) sep"

text \<open>
  The result is the bytes (\<open>None\<close> is a \<open>nil\<close> slice), the error, and the warnings of
  \<open>resourceOutputs\<close>. The method \<open>CfnResourceType\<close> of the library's property types is a
  parameter. The template's table of resources is read from the store.
\<close>

definition discoveryResourceInfoForDependency ::
  "('ss resourceProperties \<Rightarrow> string) \<Rightarrow> template \<Rightarrow> ('ss resource, 'm, 'o) store \<Rightarrow> string \<Rightarrow>
   string option \<times> string option \<times> (string \<times> string) list" where
  "discoveryResourceInfoForDependency CfnResourceType cfTemplate s logicalResourceName =
     (case tableOf (resourcesAt s) (Resources cfTemplate) logicalResourceName of
        None \<Rightarrow> (None, None, [])
      | Some item \<Rightarrow>
          (case resourceOutputs logicalResourceName (Properties item) of
             (outputs, resourceOutputsErr, warnings) \<Rightarrow>
               (case resourceOutputsErr of
                  Some e \<Rightarrow> (None, Some e, warnings)
                | None \<Rightarrow>
                    (let quotedAttrs = map (quotedAttr logicalResourceName) outputs;
                         templateData =
                           \<lparr>ResourceID = logicalResourceName,
                            ResourceType = CfnResourceType (Properties item),
                            ResourceProperties = join quotedAttrs '',''\<rparr>
                     in case parseTemplate discoveryDataForResourceDependency of
                          Inl discoveryTemplateErr \<Rightarrow> (None, Some discoveryTemplateErr, warnings)
                        | Inr discoveryTemplate \<Rightarrow>
                            (case executeNodes templateData discoveryTemplate [] of
                               (templateResults, evalResultErr) \<Rightarrow>
                                 (Some templateResults, evalResultErr, warnings))))))"

section \<open>Example templates\<close>

text \<open>
  A source with resources A and B, mapping M and outputs O and P; a destination with
  resources A and C and output O. A and O collide.
\<close>

definition exSource :: template where
  "exSource = \<lparr>Resources = Some 0, Mappings = Some 0, Outputs = Some 0\<rparr>"

definition exDest :: template where
  "exDest = \<lparr>Resources = Some 1, Mappings = Some 1, Outputs = Some 1\<rparr>"

definition exStore :: "(nat, nat, nat) store" where
  "exStore =
     \<lparr>resourcesAt = (\<lambda>_. Map.empty)(0 := [''A'' \<mapsto> 1, ''B'' \<mapsto> 2], 1 := [''A'' \<mapsto> 9, ''C'' \<mapsto> 3]),
      mappingsAt = (\<lambda>_. Map.empty)(0 := [''M'' \<mapsto> 4]),
      outputsAt = (\<lambda>_. Map.empty)(0 := [''O'' \<mapsto> 5, ''P'' \<mapsto> 6], 1 := [''O'' \<mapsto> 7])\<rparr>"

text \<open>The same source, and a destination that shares no key with it.\<close>

definition exDisjoint :: "(nat, nat, nat) store" where
  "exDisjoint =
     \<lparr>resourcesAt = (\<lambda>_. Map.empty)(0 := [''A'' \<mapsto> 1, ''B'' \<mapsto> 2], 1 := [''C'' \<mapsto> 3]),
      mappingsAt = (\<lambda>_. Map.empty)(0 := [''M'' \<mapsto> 4]),
      outputsAt = (\<lambda>_. Map.empty)(0 := [''O'' \<mapsto> 5, ''P'' \<mapsto> 6], 1 := [''Q'' \<mapsto> 7])\<rparr>"

text \<open>The zero value of the struct: all three maps are \<open>nil\<close>.\<close>

definition exZero :: template where
  "exZero = \<lparr>Resources = None, Mappings = None, Outputs = None\<rparr>"

text \<open>
  A template whose only resource is the queue MyQueue, held by value at reference 0
  and by pointer at reference 1.
\<close>

definition exQueues :: "(unit resource, nat, nat) store" where
  "exQueues =
     \<lparr>resourcesAt = (\<lambda>_. Map.empty)
        (0 := [''MyQueue'' \<mapsto> \<lparr>Properties = ByValue SQSQueue\<rparr>],
         1 := [''MyQueue'' \<mapsto> \<lparr>Properties = ByPointer SQSQueue\<rparr>]),
      mappingsAt = (\<lambda>_. Map.empty),
      outputsAt = (\<lambda>_. Map.empty)\<rparr>"

section \<open>The merge loop, characterised\<close>

lemma mergeRange_Nil: "mergeRange fmt src dst [] st = st"
  by (simp add: mergeRange_def)

lemma mergeRange_Cons:
  "mergeRange fmt src dst (k # ks) st = mergeRange fmt src dst ks (mergeEntry fmt src dst st k)"
  by (simp add: mergeRange_def)

lemma mergeEntry_panicked:
  "mergeEntry fmt src dst (h, errs, Some p) k = (h, errs, Some p)"
  by (simp add: mergeEntry_def)

lemma mergeRange_panicked:
  "mergeRange fmt src dst ks (h, errs, Some p) = (h, errs, Some p)"
  by (induction ks) (simp_all add: mergeRange_Nil mergeRange_Cons mergeEntry_panicked)

lemma tableOf_Some: "tableOf h (Some r) = h r"
  by (simp add: tableOf_def)

lemma tableOf_None: "tableOf h None = Map.empty"
  by (simp add: tableOf_def)

lemma tableOf_other: "src \<noteq> Some d \<Longrightarrow> tableOf (h(d := t)) src = tableOf h src"
  by (cases src) (simp_all add: tableOf_def)

lemma mergeRange_char:
  "distinct ks \<Longrightarrow> set ks \<subseteq> dom (tableOf h src) \<Longrightarrow>
   mergeRange fmt src (Some d) ks (h, errs, None) =
     (h(d := (tableOf h src |` set ks) ++ h d),
      errs @ map ((@) fmt) (collisions (h d) ks), None)"
proof (induction ks arbitrary: h errs)
  case Nil
  show ?case by (simp add: mergeRange_Nil collisions_def)
next
  case (Cons k ks)
  from Cons.prems obtain v where v: "tableOf h src k = Some v" by auto
  from Cons.prems have notin: "k \<notin> set ks" and dist: "distinct ks"
    and sub: "set ks \<subseteq> dom (tableOf h src)" by auto
  show ?case
  proof (cases "h d k")
    case (Some x)
    have step: "mergeEntry fmt src (Some d) (h, errs, None) k = (h, errs @ [fmt @ k], None)"
      using v Some by (simp add: mergeEntry_def tableOf_Some)
    have maps: "(tableOf h src |` set (k # ks)) ++ h d = (tableOf h src |` set ks) ++ h d"
      using Some by (auto simp: map_add_def restrict_map_def split: option.splits)
    have cols: "collisions (h d) (k # ks) = k # collisions (h d) ks"
      using Some by (simp add: collisions_def)
    have ih: "mergeRange fmt src (Some d) ks (h, errs @ [fmt @ k], None) =
        (h(d := (tableOf h src |` set ks) ++ h d),
         (errs @ [fmt @ k]) @ map ((@) fmt) (collisions (h d) ks), None)"
      using dist sub by (rule Cons.IH)
    show ?thesis
      by (simp only: mergeRange_Cons step ih maps cols append_assoc list.map append.simps)
  next
    case None
    have ne: "src \<noteq> Some d" using v None by (auto simp: tableOf_Some)
    let ?h = "h(d := (h d)(k \<mapsto> v))"
    have same: "tableOf ?h src = tableOf h src" using ne by (rule tableOf_other)
    have step: "mergeEntry fmt src (Some d) (h, errs, None) k = (?h, errs, None)"
      using v None by (simp add: mergeEntry_def tableOf_Some)
    have sub': "set ks \<subseteq> dom (tableOf ?h src)" using sub by (simp only: same)
    have maps: "(tableOf h src |` set ks) ++ ?h d = (tableOf h src |` set (k # ks)) ++ h d"
      using v None notin
      by (auto simp: map_add_def restrict_map_def split: option.splits)
    have cols: "collisions (?h d) ks = collisions (h d) (k # ks)"
      using None notin by (auto simp: collisions_def intro: filter_cong)
    have upd: "?h(d := (tableOf h src |` set (k # ks)) ++ h d) =
        h(d := (tableOf h src |` set (k # ks)) ++ h d)"
      by simp
    have ih: "mergeRange fmt src (Some d) ks (?h, errs, None) =
        (?h(d := (tableOf ?h src |` set ks) ++ ?h d),
         errs @ map ((@) fmt) (collisions (?h d) ks), None)"
      using dist sub' by (rule Cons.IH)
    show ?thesis
      by (simp only: mergeRange_Cons step ih same maps cols upd)
  qed
qed

lemma restrict_to_dom: "m |` dom m = m"
  by (rule ext) (simp add: restrict_map_def domIff)

lemma mergeRange_nil_dest:
  assumes "rangeOrder (tableOf h src) ks"
  shows "mergeRange fmt src None ks (h, errs, None) =
     (h, errs, if ks = [] then None else Some nilMapPanic)"
proof (cases ks)
  case Nil
  then show ?thesis by (simp add: mergeRange_Nil)
next
  case (Cons k ks')
  with assms obtain v where v: "tableOf h src k = Some v"
    by (auto simp: rangeOrder_def)
  have step: "mergeEntry fmt src None (h, errs, None) k = (h, errs, Some nilMapPanic)"
    using v by (simp add: mergeEntry_def tableOf_None)
  show ?thesis
    by (simp add: Cons mergeRange_Cons step mergeRange_panicked)
qed

lemma mergeRange_rangeOrder:
  assumes "rangeOrder (tableOf h src) ks"
  shows "mergeRange fmt src dst ks (h, errs, None) =
     (if receives h src dst
      then (mergedHeap h src dst,
            errs @ map ((@) fmt) (collisions (tableOf h dst) ks), None)
      else (h, errs, Some nilMapPanic))"
proof (cases dst)
  case None
  from assms have "set ks = dom (tableOf h src)"
    by (simp add: rangeOrder_def)
  then have e: "ks = [] \<longleftrightarrow> tableOf h src = Map.empty"
    by (metis dom_eq_empty_conv set_empty)
  show ?thesis
    unfolding None mergeRange_nil_dest [OF assms]
    by (auto simp: receives_def mergedHeap_def e collisions_def tableOf_None)
next
  case (Some d)
  from assms have dk: "distinct ks" and e: "set ks = dom (tableOf h src)"
    by (simp_all add: rangeOrder_def)
  from e have sub: "set ks \<subseteq> dom (tableOf h src)" by simp
  have "mergeRange fmt src (Some d) ks (h, errs, None) =
      (h(d := tableOf h src ++ h d), errs @ map ((@) fmt) (collisions (h d) ks), None)"
    by (simp only: mergeRange_char [where h = h and src = src, OF dk sub] e restrict_to_dom)
  then show ?thesis
    by (simp add: Some receives_def mergedHeap_def tableOf_Some)
qed

lemma set_collisions: "rangeOrder m ks \<Longrightarrow> set (collisions d ks) = dom m \<inter> dom d"
  by (auto simp: rangeOrder_def collisions_def)

lemma tableOf_mergedHeap:
  "receives h src dst \<Longrightarrow> tableOf (mergedHeap h src dst) dst = tableOf h src ++ tableOf h dst"
  by (cases dst) (auto simp: receives_def mergedHeap_def tableOf_def)

lemma safeMergeTemplates_char:
  assumes "rangeOrder (tableOf (resourcesAt s) (Resources src)) rks"
    and "rangeOrder (tableOf (mappingsAt s) (Mappings src)) mks"
    and "rangeOrder (tableOf (outputsAt s) (Outputs src)) oks"
    and "mergeable s src dst"
  shows "safeMergeTemplates rks mks oks src dst s =
    \<lparr>storeAfter =
       \<lparr>resourcesAt = mergedHeap (resourcesAt s) (Resources src) (Resources dst),
        mappingsAt = mergedHeap (mappingsAt s) (Mappings src) (Mappings dst),
        outputsAt = mergedHeap (outputsAt s) (Outputs src) (Outputs dst)\<rparr>,
     errorLog = (if mergeErrorsOf rks mks oks dst s = [] then []
                 else collisionsHeader # map errorLine (mergeErrorsOf rks mks oks dst s)),
     ending = (if mergeErrorsOf rks mks oks dst s = [] then Returned None
               else Returned (Some ''Template merge failed''))\<rparr>"
proof -
  from assms(4) have r: "receives (resourcesAt s) (Resources src) (Resources dst)"
    and m: "receives (mappingsAt s) (Mappings src) (Mappings dst)"
    and o: "receives (outputsAt s) (Outputs src) (Outputs dst)"
    by (simp_all add: mergeable_def)
  show ?thesis
    unfolding safeMergeTemplates_def mergeErrorsOf_def
    by (simp add: r m o
      mergeRange_rangeOrder [where h = "resourcesAt s" and src = "Resources src", OF assms(1)]
      mergeRange_rangeOrder [where h = "mappingsAt s" and src = "Mappings src", OF assms(2)]
      mergeRange_rangeOrder [where h = "outputsAt s" and src = "Outputs src", OF assms(3)])
qed

lemma safeMergeTemplates_panics:
  assumes "rangeOrder (tableOf (resourcesAt s) (Resources src)) rks"
    and "rangeOrder (tableOf (mappingsAt s) (Mappings src)) mks"
    and "rangeOrder (tableOf (outputsAt s) (Outputs src)) oks"
    and "\<not> mergeable s src dst"
  shows "ending (safeMergeTemplates rks mks oks src dst s) = Panicked nilMapPanic"
    and "errorLog (safeMergeTemplates rks mks oks src dst s) = []"
  using assms(4)
  unfolding safeMergeTemplates_def
    mergeRange_rangeOrder [where h = "resourcesAt s" and src = "Resources src", OF assms(1)]
  by (auto simp: mergeable_def mergeRange_panicked
      mergeRange_rangeOrder [where h = "mappingsAt s" and src = "Mappings src", OF assms(2)]
      mergeRange_rangeOrder [where h = "outputsAt s" and src = "Outputs src", OF assms(3)])

lemma safeMergeTemplates_returns_iff:
  assumes "rangeOrder (tableOf (resourcesAt s) (Resources src)) rks"
    and "rangeOrder (tableOf (mappingsAt s) (Mappings src)) mks"
    and "rangeOrder (tableOf (outputsAt s) (Outputs src)) oks"
  shows "(\<exists>e. ending (safeMergeTemplates rks mks oks src dst s) = Returned e) \<longleftrightarrow>
     mergeable s src dst"
proof (cases "mergeable s src dst")
  case True
  show ?thesis
    unfolding safeMergeTemplates_char [OF assms True] using True by simp
next
  case False
  show ?thesis
    unfolding safeMergeTemplates_panics(1) [OF assms False] using False by simp
qed

lemma mergeErrorsOf_empty:
  assumes "rangeOrder (tableOf (resourcesAt s) (Resources src)) rks"
    and "rangeOrder (tableOf (mappingsAt s) (Mappings src)) mks"
    and "rangeOrder (tableOf (outputsAt s) (Outputs src)) oks"
  shows "mergeErrorsOf rks mks oks dst s = [] \<longleftrightarrow>
     dom (tableOf (resourcesAt s) (Resources src)) \<inter>
       dom (tableOf (resourcesAt s) (Resources dst)) = {} \<and>
     dom (tableOf (mappingsAt s) (Mappings src)) \<inter>
       dom (tableOf (mappingsAt s) (Mappings dst)) = {} \<and>
     dom (tableOf (outputsAt s) (Outputs src)) \<inter>
       dom (tableOf (outputsAt s) (Outputs dst)) = {}"
proof -
  have "mergeErrorsOf rks mks oks dst s = [] \<longleftrightarrow>
      set (collisions (tableOf (resourcesAt s) (Resources dst)) rks) = {} \<and>
      set (collisions (tableOf (mappingsAt s) (Mappings dst)) mks) = {} \<and>
      set (collisions (tableOf (outputsAt s) (Outputs dst)) oks) = {}"
    by (simp add: mergeErrorsOf_def)
  then show ?thesis
    by (simp only: set_collisions [OF assms(1)] set_collisions [OF assms(2)]
        set_collisions [OF assms(3)])
qed

text \<open>
  The source's tables are never written, whatever the order, whether or not source
  and destination share a table, and whether or not the call panics: a write needs a
  key the source has and the destination lacks, so the two tables differ.
\<close>

lemma mergeEntry_source:
  "mergeEntry fmt src dst (h, errs, p) k = (h', errs', p') \<Longrightarrow> tableOf h' src = tableOf h src"
proof (cases "\<exists>d v. p = None \<and> dst = Some d \<and> tableOf h src k = Some v \<and> h d k = None")
  case True
  then obtain d v where f: "p = None" "dst = Some d" "tableOf h src k = Some v" "h d k = None"
    by blast
  then have ne: "src \<noteq> Some d" by (auto simp: tableOf_Some)
  assume "mergeEntry fmt src dst (h, errs, p) k = (h', errs', p')"
  with f have "h' = h(d := (h d)(k \<mapsto> v))"
    by (simp add: mergeEntry_def tableOf_Some)
  with ne show ?thesis by (simp add: tableOf_other)
next
  case False
  assume "mergeEntry fmt src dst (h, errs, p) k = (h', errs', p')"
  with False have "h' = h"
    by (auto simp: mergeEntry_def tableOf_Some split: option.splits if_splits)
  then show ?thesis by simp
qed

lemma mergeRange_source:
  "mergeRange fmt src dst ks (h, errs, p) = (h', errs', p') \<Longrightarrow> tableOf h' src = tableOf h src"
proof (induction ks arbitrary: h errs p)
  case Nil
  then show ?case by (simp add: mergeRange_Nil)
next
  case (Cons k ks)
  obtain h1 e1 p1 where step: "mergeEntry fmt src dst (h, errs, p) k = (h1, e1, p1)"
    by (cases "mergeEntry fmt src dst (h, errs, p) k")
  from Cons.prems have "mergeRange fmt src dst ks (h1, e1, p1) = (h', errs', p')"
    by (simp add: mergeRange_Cons step)
  then have "tableOf h' src = tableOf h1 src" by (rule Cons.IH)
  with mergeEntry_source [OF step] show ?case by simp
qed

lemma mergeErrorsOf_set:
  assumes "rangeOrder (tableOf (resourcesAt s) (Resources src)) rks"
    and "rangeOrder (tableOf (mappingsAt s) (Mappings src)) mks"
    and "rangeOrder (tableOf (outputsAt s) (Outputs src)) oks"
  shows "set (mergeErrorsOf rks mks oks dst s) =
     (@) resourceFmt ` (dom (tableOf (resourcesAt s) (Resources src)) \<inter>
        dom (tableOf (resourcesAt s) (Resources dst))) \<union>
     (@) mappingFmt ` (dom (tableOf (mappingsAt s) (Mappings src)) \<inter>
        dom (tableOf (mappingsAt s) (Mappings dst))) \<union>
     (@) outputFmt ` (dom (tableOf (outputsAt s) (Outputs src)) \<inter>
        dom (tableOf (outputsAt s) (Outputs dst)))"
  by (simp add: mergeErrorsOf_def set_collisions [OF assms(1)] set_collisions [OF assms(2)]
      set_collisions [OF assms(3)] Un_assoc)

lemma safeMergeTemplates_tables:
  assumes "rangeOrder (tableOf (resourcesAt s) (Resources src)) rks"
    and "rangeOrder (tableOf (mappingsAt s) (Mappings src)) mks"
    and "rangeOrder (tableOf (outputsAt s) (Outputs src)) oks"
    and "mergeable s src dst"
  shows "tableOf (resourcesAt (storeAfter (safeMergeTemplates rks mks oks src dst s)))
        (Resources dst) =
      tableOf (resourcesAt s) (Resources src) ++ tableOf (resourcesAt s) (Resources dst)"
    and "tableOf (mappingsAt (storeAfter (safeMergeTemplates rks mks oks src dst s)))
        (Mappings dst) =
      tableOf (mappingsAt s) (Mappings src) ++ tableOf (mappingsAt s) (Mappings dst)"
    and "tableOf (outputsAt (storeAfter (safeMergeTemplates rks mks oks src dst s)))
        (Outputs dst) =
      tableOf (outputsAt s) (Outputs src) ++ tableOf (outputsAt s) (Outputs dst)"
  using assms(4) unfolding safeMergeTemplates_char [OF assms]
  by (simp_all add: mergeable_def tableOf_mergedHeap)

lemma keep_or_insert:
  assumes "t' = src ++ dst"
    and "\<And>k v d. src k = Some v \<Longrightarrow> dst k = Some d \<Longrightarrow> P k"
  shows "\<forall>k v. src k = Some v \<longrightarrow>
     (case dst k of Some d \<Rightarrow> P k \<and> t' k = Some d | None \<Rightarrow> t' k = Some v)"
  using assms by (auto simp: map_add_def split: option.splits)

section \<open>Claims about safeMergeTemplates\<close>

text \<open>
  C1, as the code has it. Take a call in which every destination map is allocated or
  the matching source map is empty; these are exactly the calls that do not panic.
  The call returns, and for each of the three collections and every entry of the
  source: if the destination already has the key, the error log holds the line that
  names the collection and the key, and the destination keeps its own value;
  otherwise the destination receives the source's value. This holds for every
  iteration order of the three loops, and also when the two templates share tables.
\<close>

theorem safeMergeTemplates_no_overwrite:
  fixes s :: "('r, 'm, 'o) store" and src dst :: template and rks mks oks :: "string list"
  assumes "rangeOrder (tableOf (resourcesAt s) (Resources src)) rks"
    and "rangeOrder (tableOf (mappingsAt s) (Mappings src)) mks"
    and "rangeOrder (tableOf (outputsAt s) (Outputs src)) oks"
    and "mergeable s src dst"
  defines "r \<equiv> safeMergeTemplates rks mks oks src dst s"
  shows
    "(\<exists>e. ending r = Returned e) \<and>
     (\<forall>k v. tableOf (resourcesAt s) (Resources src) k = Some v \<longrightarrow>
        (case tableOf (resourcesAt s) (Resources dst) k of
           Some d \<Rightarrow>
             CHR 0x09 # ''Duplicate CloudFormation resource name: '' @ k \<in> set (errorLog r) \<and>
             tableOf (resourcesAt (storeAfter r)) (Resources dst) k = Some d
         | None \<Rightarrow> tableOf (resourcesAt (storeAfter r)) (Resources dst) k = Some v)) \<and>
     (\<forall>k v. tableOf (mappingsAt s) (Mappings src) k = Some v \<longrightarrow>
        (case tableOf (mappingsAt s) (Mappings dst) k of
           Some d \<Rightarrow>
             CHR 0x09 # ''Duplicate CloudFormation Mapping name: '' @ k \<in> set (errorLog r) \<and>
             tableOf (mappingsAt (storeAfter r)) (Mappings dst) k = Some d
         | None \<Rightarrow> tableOf (mappingsAt (storeAfter r)) (Mappings dst) k = Some v)) \<and>
     (\<forall>k v. tableOf (outputsAt s) (Outputs src) k = Some v \<longrightarrow>
        (case tableOf (outputsAt s) (Outputs dst) k of
           Some d \<Rightarrow>
             CHR 0x09 # ''Duplicate CloudFormation output key name: '' @ k \<in> set (errorLog r) \<and>
             tableOf (outputsAt (storeAfter r)) (Outputs dst) k = Some d
         | None \<Rightarrow> tableOf (outputsAt (storeAfter r)) (Outputs dst) k = Some v))"
proof -
  note ch = safeMergeTemplates_char [OF assms(1-4)]
  note es = mergeErrorsOf_set [OF assms(1-3), of dst]
  note tb = safeMergeTemplates_tables [OF assms(1-4)]
  have ret: "\<exists>e. ending r = Returned e"
    unfolding r_def ch by simp
  have log: "e \<in> set (mergeErrorsOf rks mks oks dst s) \<Longrightarrow> CHR 0x09 # e \<in> set (errorLog r)" for e
    unfolding r_def ch by (auto simp: errorLine_def split: if_splits)
  have logR: "CHR 0x09 # ''Duplicate CloudFormation resource name: '' @ k \<in> set (errorLog r)"
    if "tableOf (resourcesAt s) (Resources src) k = Some v"
      "tableOf (resourcesAt s) (Resources dst) k = Some d" for k v d
  proof -
    from that have "resourceFmt @ k \<in> set (mergeErrorsOf rks mks oks dst s)"
      by (auto simp: es)
    from log [OF this] show ?thesis by (simp add: resourceFmt_def)
  qed
  have logM: "CHR 0x09 # ''Duplicate CloudFormation Mapping name: '' @ k \<in> set (errorLog r)"
    if "tableOf (mappingsAt s) (Mappings src) k = Some v"
      "tableOf (mappingsAt s) (Mappings dst) k = Some d" for k v d
  proof -
    from that have "mappingFmt @ k \<in> set (mergeErrorsOf rks mks oks dst s)"
      by (auto simp: es)
    from log [OF this] show ?thesis by (simp add: mappingFmt_def)
  qed
  have logO: "CHR 0x09 # ''Duplicate CloudFormation output key name: '' @ k \<in> set (errorLog r)"
    if "tableOf (outputsAt s) (Outputs src) k = Some v"
      "tableOf (outputsAt s) (Outputs dst) k = Some d" for k v d
  proof -
    from that have "outputFmt @ k \<in> set (mergeErrorsOf rks mks oks dst s)"
      by (auto simp: es)
    from log [OF this] show ?thesis by (simp add: outputFmt_def)
  qed
  have tR: "tableOf (resourcesAt (storeAfter r)) (Resources dst) =
      tableOf (resourcesAt s) (Resources src) ++ tableOf (resourcesAt s) (Resources dst)"
    unfolding r_def by (rule tb)
  have tM: "tableOf (mappingsAt (storeAfter r)) (Mappings dst) =
      tableOf (mappingsAt s) (Mappings src) ++ tableOf (mappingsAt s) (Mappings dst)"
    unfolding r_def by (rule tb)
  have tO: "tableOf (outputsAt (storeAfter r)) (Outputs dst) =
      tableOf (outputsAt s) (Outputs src) ++ tableOf (outputsAt s) (Outputs dst)"
    unfolding r_def by (rule tb)
  note c1 = keep_or_insert [OF tR logR]
  note c2 = keep_or_insert [OF tM logM]
  note c3 = keep_or_insert [OF tO logO]
  from ret c1 c2 c3 show ?thesis by (intro conjI)
qed

lemma exStore_orders:
  "rangeOrder (tableOf (resourcesAt exStore) (Resources exSource)) [''A'', ''B'']"
  "rangeOrder (tableOf (resourcesAt exStore) (Resources exSource)) [''B'', ''A'']"
  "rangeOrder (tableOf (mappingsAt exStore) (Mappings exSource)) [''M'']"
  "rangeOrder (tableOf (outputsAt exStore) (Outputs exSource)) [''O'', ''P'']"
  "rangeOrder (tableOf (outputsAt exStore) (Outputs exSource)) [''P'', ''O'']"
  by (auto simp: rangeOrder_def exStore_def exSource_def tableOf_def)

theorem safeMergeTemplates_no_overwrite_witness:
  "rangeOrder (tableOf (resourcesAt exStore) (Resources exSource)) [''B'', ''A''] \<and>
   rangeOrder (tableOf (mappingsAt exStore) (Mappings exSource)) [''M''] \<and>
   rangeOrder (tableOf (outputsAt exStore) (Outputs exSource)) [''O'', ''P''] \<and>
   mergeable exStore exSource exDest \<and>
   tableOf (resourcesAt exStore) (Resources exSource) ''A'' = Some 1 \<and>
   tableOf (resourcesAt exStore) (Resources exDest) ''A'' = Some 9 \<and>
   tableOf (resourcesAt (storeAfter (safeMergeTemplates [''B'', ''A''] [''M''] [''O'', ''P'']
      exSource exDest exStore))) (Resources exDest) ''A'' = Some 9 \<and>
   CHR 0x09 # ''Duplicate CloudFormation resource name: A'' \<in>
     set (errorLog (safeMergeTemplates [''B'', ''A''] [''M''] [''O'', ''P'']
       exSource exDest exStore)) \<and>
   tableOf (resourcesAt exStore) (Resources exSource) ''B'' = Some 2 \<and>
   tableOf (resourcesAt exStore) (Resources exDest) ''B'' = None \<and>
   tableOf (resourcesAt (storeAfter (safeMergeTemplates [''B'', ''A''] [''M''] [''O'', ''P'']
      exSource exDest exStore))) (Resources exDest) ''B'' = Some 2"
proof -
  note h1 = exStore_orders(2) and h2 = exStore_orders(3) and h3 = exStore_orders(4)
  have h4: "mergeable exStore exSource exDest"
    by (simp add: mergeable_def receives_def exDest_def)
  note c = safeMergeTemplates_no_overwrite [OF h1 h2 h3 h4, THEN conjunct2, THEN conjunct1,
      rule_format]
  have sA: "tableOf (resourcesAt exStore) (Resources exSource) ''A'' = Some 1"
    by (simp add: exStore_def exSource_def tableOf_def)
  have dA: "tableOf (resourcesAt exStore) (Resources exDest) ''A'' = Some 9"
    by (simp add: exStore_def exDest_def tableOf_def)
  have sB: "tableOf (resourcesAt exStore) (Resources exSource) ''B'' = Some 2"
    by (simp add: exStore_def exSource_def tableOf_def)
  have dB: "tableOf (resourcesAt exStore) (Resources exDest) ''B'' = None"
    by (simp add: exStore_def exDest_def tableOf_def)
  from c [OF sA] c [OF sB] show ?thesis
    by (simp add: h1 h2 h3 h4 sA dA sB dB)
qed

text \<open>
  The claim as written fails when a destination map is \<open>nil\<close>: the source has the
  resource A, the zero template does not, and the call panics at the assignment, so A
  is not in the destination afterwards.
\<close>

theorem safeMergeTemplates_no_overwrite_counterexample:
  "rangeOrder (tableOf (resourcesAt exStore) (Resources exSource)) [''A'', ''B''] \<and>
   rangeOrder (tableOf (mappingsAt exStore) (Mappings exSource)) [''M''] \<and>
   rangeOrder (tableOf (outputsAt exStore) (Outputs exSource)) [''O'', ''P''] \<and>
   tableOf (resourcesAt exStore) (Resources exSource) ''A'' = Some 1 \<and>
   tableOf (resourcesAt exStore) (Resources exZero) ''A'' = None \<and>
   ending (safeMergeTemplates [''A'', ''B''] [''M''] [''O'', ''P''] exSource exZero exStore) =
     Panicked ''assignment to entry in nil map'' \<and>
   tableOf (resourcesAt (storeAfter (safeMergeTemplates [''A'', ''B''] [''M''] [''O'', ''P'']
      exSource exZero exStore))) (Resources exZero) ''A'' \<noteq> Some 1"
proof -
  have e: "ending (safeMergeTemplates [''A'', ''B''] [''M''] [''O'', ''P''] exSource exZero
      exStore) = Panicked ''assignment to entry in nil map''"
    by (simp add: safeMergeTemplates_def mergeRange_def mergeEntry_def exStore_def
        exSource_def exZero_def tableOf_def nilMapPanic_def)
  show ?thesis
    by (simp add: exStore_orders e) (simp add: exStore_def exSource_def exZero_def tableOf_def)
qed

text \<open>
  C2, as the code has it. Take a call in which every destination map is allocated or
  the matching source map is empty; these are exactly the calls that do not panic.
  The call returns the error \<open>Template merge failed\<close> exactly when some key of the
  source is already in the destination, in any of the three collections, and returns
  \<open>nil\<close> otherwise. The returned error is this fixed text; the collisions are itemised
  in the error log. When the call fails the log is the header line followed by one
  line for every collision of every collection, each naming its collection and its
  key, in the order the loops met them; when it succeeds the log is empty.
\<close>

theorem safeMergeTemplates_fails_iff_collision:
  fixes s :: "('r, 'm, 'o) store" and src dst :: template and rks mks oks :: "string list"
  assumes "rangeOrder (tableOf (resourcesAt s) (Resources src)) rks"
    and "rangeOrder (tableOf (mappingsAt s) (Mappings src)) mks"
    and "rangeOrder (tableOf (outputsAt s) (Outputs src)) oks"
    and "mergeable s src dst"
  defines "r \<equiv> safeMergeTemplates rks mks oks src dst s"
    and "cr \<equiv> filter (\<lambda>k. tableOf (resourcesAt s) (Resources dst) k \<noteq> None) rks"
    and "cm \<equiv> filter (\<lambda>k. tableOf (mappingsAt s) (Mappings dst) k \<noteq> None) mks"
    and "co \<equiv> filter (\<lambda>k. tableOf (outputsAt s) (Outputs dst) k \<noteq> None) oks"
  shows
    "(ending r = Returned (Some ''Template merge failed'') \<longleftrightarrow>
        set cr \<noteq> {} \<or> set cm \<noteq> {} \<or> set co \<noteq> {}) \<and>
     (ending r = Returned None \<longleftrightarrow> set cr = {} \<and> set cm = {} \<and> set co = {}) \<and>
     set cr = dom (tableOf (resourcesAt s) (Resources src)) \<inter>
              dom (tableOf (resourcesAt s) (Resources dst)) \<and>
     set cm = dom (tableOf (mappingsAt s) (Mappings src)) \<inter>
              dom (tableOf (mappingsAt s) (Mappings dst)) \<and>
     set co = dom (tableOf (outputsAt s) (Outputs src)) \<inter>
              dom (tableOf (outputsAt s) (Outputs dst)) \<and>
     distinct cr \<and> distinct cm \<and> distinct co \<and>
     errorLog r =
       (if set cr = {} \<and> set cm = {} \<and> set co = {} then []
        else ''Failed to update template. The following collisions were found:'' #
             map (\<lambda>k. CHR 0x09 # ''Duplicate CloudFormation resource name: '' @ k) cr @
             map (\<lambda>k. CHR 0x09 # ''Duplicate CloudFormation Mapping name: '' @ k) cm @
             map (\<lambda>k. CHR 0x09 # ''Duplicate CloudFormation output key name: '' @ k) co)"
proof -
  note ch = safeMergeTemplates_char [OF assms(1-4)]
  have cr: "cr = collisions (tableOf (resourcesAt s) (Resources dst)) rks"
    and cm: "cm = collisions (tableOf (mappingsAt s) (Mappings dst)) mks"
    and co: "co = collisions (tableOf (outputsAt s) (Outputs dst)) oks"
    by (simp_all add: cr_def cm_def co_def collisions_def)
  have me: "mergeErrorsOf rks mks oks dst s =
      map ((@) resourceFmt) cr @ map ((@) mappingFmt) cm @ map ((@) outputFmt) co"
    by (simp add: mergeErrorsOf_def cr cm co)
  have em: "mergeErrorsOf rks mks oks dst s = [] \<longleftrightarrow> set cr = {} \<and> set cm = {} \<and> set co = {}"
    by (simp add: me)
  have p1: "ending r = Returned (Some ''Template merge failed'') \<longleftrightarrow>
      set cr \<noteq> {} \<or> set cm \<noteq> {} \<or> set co \<noteq> {}"
    unfolding r_def ch em by simp
  have p2: "ending r = Returned None \<longleftrightarrow> set cr = {} \<and> set cm = {} \<and> set co = {}"
    unfolding r_def ch em by simp
  have p3: "set cr = dom (tableOf (resourcesAt s) (Resources src)) \<inter>
              dom (tableOf (resourcesAt s) (Resources dst))"
    unfolding cr by (rule set_collisions [OF assms(1)])
  have p4: "set cm = dom (tableOf (mappingsAt s) (Mappings src)) \<inter>
              dom (tableOf (mappingsAt s) (Mappings dst))"
    unfolding cm by (rule set_collisions [OF assms(2)])
  have p5: "set co = dom (tableOf (outputsAt s) (Outputs src)) \<inter>
              dom (tableOf (outputsAt s) (Outputs dst))"
    unfolding co by (rule set_collisions [OF assms(3)])
  have p6: "distinct cr" "distinct cm" "distinct co"
    using assms(1-3) by (simp_all add: cr_def cm_def co_def rangeOrder_def)
  have lines: "map errorLine (mergeErrorsOf rks mks oks dst s) =
      map (\<lambda>k. CHR 0x09 # ''Duplicate CloudFormation resource name: '' @ k) cr @
      map (\<lambda>k. CHR 0x09 # ''Duplicate CloudFormation Mapping name: '' @ k) cm @
      map (\<lambda>k. CHR 0x09 # ''Duplicate CloudFormation output key name: '' @ k) co"
    by (simp add: me errorLine_def resourceFmt_def mappingFmt_def outputFmt_def comp_def)
  have p7: "errorLog r =
       (if set cr = {} \<and> set cm = {} \<and> set co = {} then []
        else ''Failed to update template. The following collisions were found:'' #
             map (\<lambda>k. CHR 0x09 # ''Duplicate CloudFormation resource name: '' @ k) cr @
             map (\<lambda>k. CHR 0x09 # ''Duplicate CloudFormation Mapping name: '' @ k) cm @
             map (\<lambda>k. CHR 0x09 # ''Duplicate CloudFormation output key name: '' @ k) co)"
    unfolding r_def ch em lines [symmetric] by (simp add: collisionsHeader_def)
  from p1 p2 p3 p4 p5 p6 p7 show ?thesis by (intro conjI)
qed


theorem safeMergeTemplates_fails_iff_collision_witness:
  "rangeOrder (tableOf (resourcesAt exStore) (Resources exSource)) [''B'', ''A''] \<and>
   rangeOrder (tableOf (mappingsAt exStore) (Mappings exSource)) [''M''] \<and>
   rangeOrder (tableOf (outputsAt exStore) (Outputs exSource)) [''O'', ''P''] \<and>
   mergeable exStore exSource exDest \<and>
   ending (safeMergeTemplates [''B'', ''A''] [''M''] [''O'', ''P''] exSource exDest exStore) =
     Returned (Some ''Template merge failed'') \<and>
   errorLog (safeMergeTemplates [''B'', ''A''] [''M''] [''O'', ''P''] exSource exDest exStore) =
     [''Failed to update template. The following collisions were found:'',
      CHR 0x09 # ''Duplicate CloudFormation resource name: A'',
      CHR 0x09 # ''Duplicate CloudFormation output key name: O'']"
proof -
  note h1 = exStore_orders(2) and h2 = exStore_orders(3) and h3 = exStore_orders(4)
  have h4: "mergeable exStore exSource exDest"
    by (simp add: mergeable_def receives_def exDest_def)
  have cr: "filter (\<lambda>k. tableOf (resourcesAt exStore) (Resources exDest) k \<noteq> None)
      [''B'', ''A''] = [''A'']"
    by (simp add: exStore_def exDest_def tableOf_def)
  have cm: "filter (\<lambda>k. tableOf (mappingsAt exStore) (Mappings exDest) k \<noteq> None)
      [''M''] = []"
    by (simp add: exStore_def exDest_def tableOf_def)
  have co: "filter (\<lambda>k. tableOf (outputsAt exStore) (Outputs exDest) k \<noteq> None)
      [''O'', ''P''] = [''O'']"
    by (simp add: exStore_def exDest_def tableOf_def)
  from safeMergeTemplates_fails_iff_collision [OF h1 h2 h3 h4]
  show ?thesis
    unfolding cr cm co by (simp add: h1 h2 h3 h4)
qed

text \<open>
  The claim as written fails when a destination map is \<open>nil\<close>: the source and the zero
  template have no key in common, yet the call does not return success; it panics at
  the first assignment. And where the call fails on the collisions A and O, the error
  it returns is the fixed text, which names neither.
\<close>

theorem safeMergeTemplates_fails_iff_collision_counterexample:
  "rangeOrder (tableOf (resourcesAt exStore) (Resources exSource)) [''B'', ''A''] \<and>
   rangeOrder (tableOf (mappingsAt exStore) (Mappings exSource)) [''M''] \<and>
   rangeOrder (tableOf (outputsAt exStore) (Outputs exSource)) [''P'', ''O''] \<and>
   dom (tableOf (resourcesAt exStore) (Resources exSource)) \<inter>
     dom (tableOf (resourcesAt exStore) (Resources exZero)) = {} \<and>
   dom (tableOf (mappingsAt exStore) (Mappings exSource)) \<inter>
     dom (tableOf (mappingsAt exStore) (Mappings exZero)) = {} \<and>
   dom (tableOf (outputsAt exStore) (Outputs exSource)) \<inter>
     dom (tableOf (outputsAt exStore) (Outputs exZero)) = {} \<and>
   ending (safeMergeTemplates [''B'', ''A''] [''M''] [''P'', ''O''] exSource exZero exStore) \<noteq>
     Returned None \<and>
   ending (safeMergeTemplates [''B'', ''A''] [''M''] [''P'', ''O''] exSource exZero exStore) =
     Panicked ''assignment to entry in nil map'' \<and>
   tableOf (resourcesAt exStore) (Resources exSource) ''A'' = Some 1 \<and>
   tableOf (resourcesAt exStore) (Resources exDest) ''A'' = Some 9 \<and>
   tableOf (outputsAt exStore) (Outputs exSource) ''O'' = Some 5 \<and>
   tableOf (outputsAt exStore) (Outputs exDest) ''O'' = Some 7 \<and>
   ending (safeMergeTemplates [''B'', ''A''] [''M''] [''P'', ''O''] exSource exDest exStore) =
     Returned (Some ''Template merge failed'')"
proof -
  have e: "ending (safeMergeTemplates [''B'', ''A''] [''M''] [''P'', ''O''] exSource exZero
      exStore) = Panicked ''assignment to entry in nil map''"
    by (simp add: safeMergeTemplates_def mergeRange_def mergeEntry_def exStore_def
        exSource_def exZero_def tableOf_def nilMapPanic_def)
  have f: "ending (safeMergeTemplates [''B'', ''A''] [''M''] [''P'', ''O''] exSource exDest
      exStore) = Returned (Some ''Template merge failed'')"
    by (simp add: safeMergeTemplates_def mergeRange_def mergeEntry_def exStore_def
        exSource_def exDest_def tableOf_def)
  show ?thesis
    by (simp add: exStore_orders e f)
      (simp add: exStore_def exSource_def exDest_def exZero_def tableOf_def)
qed

text \<open>
  C10. A call never changes the tables of the source template, whether it returns
  success, returns the error or panics, for every iteration order, and also when
  source and destination share tables.
\<close>

theorem safeMergeTemplates_source_unchanged:
  "tableOf (resourcesAt (storeAfter (safeMergeTemplates rks mks oks src dst s))) (Resources src) =
     tableOf (resourcesAt s) (Resources src) \<and>
   tableOf (mappingsAt (storeAfter (safeMergeTemplates rks mks oks src dst s))) (Mappings src) =
     tableOf (mappingsAt s) (Mappings src) \<and>
   tableOf (outputsAt (storeAfter (safeMergeTemplates rks mks oks src dst s))) (Outputs src) =
     tableOf (outputsAt s) (Outputs src)"
  by (auto simp: safeMergeTemplates_def split: prod.splits option.splits dest: mergeRange_source)

text \<open>
  C3. A failing call is not rolled back: when the call returns the error, every entry
  of the source whose key the destination did not have is in the destination, in each
  of the three collections.
\<close>

theorem safeMergeTemplates_failure_keeps_inserts:
  fixes s :: "('r, 'm, 'o) store" and src dst :: template and rks mks oks :: "string list"
  assumes "rangeOrder (tableOf (resourcesAt s) (Resources src)) rks"
    and "rangeOrder (tableOf (mappingsAt s) (Mappings src)) mks"
    and "rangeOrder (tableOf (outputsAt s) (Outputs src)) oks"
    and "ending (safeMergeTemplates rks mks oks src dst s) = Returned (Some e)"
  defines "s' \<equiv> storeAfter (safeMergeTemplates rks mks oks src dst s)"
  shows
    "(\<forall>k v. tableOf (resourcesAt s) (Resources src) k = Some v \<and>
            tableOf (resourcesAt s) (Resources dst) k = None
        \<longrightarrow> tableOf (resourcesAt s') (Resources dst) k = Some v) \<and>
     (\<forall>k v. tableOf (mappingsAt s) (Mappings src) k = Some v \<and>
            tableOf (mappingsAt s) (Mappings dst) k = None
        \<longrightarrow> tableOf (mappingsAt s') (Mappings dst) k = Some v) \<and>
     (\<forall>k v. tableOf (outputsAt s) (Outputs src) k = Some v \<and>
            tableOf (outputsAt s) (Outputs dst) k = None
        \<longrightarrow> tableOf (outputsAt s') (Outputs dst) k = Some v)"
proof -
  from assms(4) have "\<exists>e. ending (safeMergeTemplates rks mks oks src dst s) = Returned e"
    by blast
  then have m: "mergeable s src dst"
    by (simp only: safeMergeTemplates_returns_iff [OF assms(1-3)])
  show ?thesis
    unfolding s'_def safeMergeTemplates_tables [OF assms(1-3) m]
    by (simp add: map_add_def)
qed

theorem safeMergeTemplates_failure_keeps_inserts_witness:
  "rangeOrder (tableOf (resourcesAt exStore) (Resources exSource)) [''A'', ''B''] \<and>
   rangeOrder (tableOf (mappingsAt exStore) (Mappings exSource)) [''M''] \<and>
   rangeOrder (tableOf (outputsAt exStore) (Outputs exSource)) [''P'', ''O''] \<and>
   ending (safeMergeTemplates [''A'', ''B''] [''M''] [''P'', ''O''] exSource exDest exStore) =
     Returned (Some ''Template merge failed'') \<and>
   tableOf (resourcesAt (storeAfter (safeMergeTemplates [''A'', ''B''] [''M''] [''P'', ''O'']
      exSource exDest exStore))) (Resources exDest) ''B'' = Some 2 \<and>
   tableOf (mappingsAt (storeAfter (safeMergeTemplates [''A'', ''B''] [''M''] [''P'', ''O'']
      exSource exDest exStore))) (Mappings exDest) ''M'' = Some 4 \<and>
   tableOf (outputsAt (storeAfter (safeMergeTemplates [''A'', ''B''] [''M''] [''P'', ''O'']
      exSource exDest exStore))) (Outputs exDest) ''P'' = Some 6"
proof -
  note h1 = exStore_orders(1) and h2 = exStore_orders(3) and h3 = exStore_orders(5)
  have h4: "ending (safeMergeTemplates [''A'', ''B''] [''M''] [''P'', ''O'']
      exSource exDest exStore) = Returned (Some ''Template merge failed'')"
    by (simp add: safeMergeTemplates_def mergeRange_def mergeEntry_def exStore_def
        exSource_def exDest_def tableOf_def)
  note c = safeMergeTemplates_failure_keeps_inserts [OF h1 h2 h3 h4]
  have r: "tableOf (resourcesAt exStore) (Resources exSource) ''B'' = Some 2 \<and>
      tableOf (resourcesAt exStore) (Resources exDest) ''B'' = None"
    by (simp add: exStore_def exSource_def exDest_def tableOf_def)
  have m: "tableOf (mappingsAt exStore) (Mappings exSource) ''M'' = Some 4 \<and>
      tableOf (mappingsAt exStore) (Mappings exDest) ''M'' = None"
    by (simp add: exStore_def exSource_def exDest_def tableOf_def)
  have o: "tableOf (outputsAt exStore) (Outputs exSource) ''P'' = Some 6 \<and>
      tableOf (outputsAt exStore) (Outputs exDest) ''P'' = None"
    by (simp add: exStore_def exSource_def exDest_def tableOf_def)
  from c [THEN conjunct1, rule_format, OF r]
    c [THEN conjunct2, THEN conjunct1, rule_format, OF m]
    c [THEN conjunct2, THEN conjunct2, rule_format, OF o]
  show ?thesis by (simp add: h1 h2 h3 h4)
qed

text \<open>
  C8, as the code has it. Take two templates that share no key in any of the three
  collections, and in which, in both directions, every destination map is allocated
  or the matching source map is empty. Merging either into the other returns success,
  the destination then holds exactly the entries of both, and the two directions give
  the same tables.
\<close>

theorem safeMergeTemplates_disjoint_union:
  fixes s :: "('r, 'm, 'o) store" and a b :: template
    and rka mka oka rkb mkb okb :: "string list"
  assumes "rangeOrder (tableOf (resourcesAt s) (Resources a)) rka"
    and "rangeOrder (tableOf (mappingsAt s) (Mappings a)) mka"
    and "rangeOrder (tableOf (outputsAt s) (Outputs a)) oka"
    and "rangeOrder (tableOf (resourcesAt s) (Resources b)) rkb"
    and "rangeOrder (tableOf (mappingsAt s) (Mappings b)) mkb"
    and "rangeOrder (tableOf (outputsAt s) (Outputs b)) okb"
    and "dom (tableOf (resourcesAt s) (Resources a)) \<inter>
         dom (tableOf (resourcesAt s) (Resources b)) = {}"
    and "dom (tableOf (mappingsAt s) (Mappings a)) \<inter>
         dom (tableOf (mappingsAt s) (Mappings b)) = {}"
    and "dom (tableOf (outputsAt s) (Outputs a)) \<inter>
         dom (tableOf (outputsAt s) (Outputs b)) = {}"
    and "mergeable s a b"
    and "mergeable s b a"
  defines "ab \<equiv> safeMergeTemplates rka mka oka a b s"
    and "ba \<equiv> safeMergeTemplates rkb mkb okb b a s"
  shows
    "ending ab = Returned None \<and> ending ba = Returned None \<and>
     (\<forall>k v. tableOf (resourcesAt (storeAfter ab)) (Resources b) k = Some v \<longleftrightarrow>
        tableOf (resourcesAt s) (Resources a) k = Some v \<or>
        tableOf (resourcesAt s) (Resources b) k = Some v) \<and>
     (\<forall>k v. tableOf (mappingsAt (storeAfter ab)) (Mappings b) k = Some v \<longleftrightarrow>
        tableOf (mappingsAt s) (Mappings a) k = Some v \<or>
        tableOf (mappingsAt s) (Mappings b) k = Some v) \<and>
     (\<forall>k v. tableOf (outputsAt (storeAfter ab)) (Outputs b) k = Some v \<longleftrightarrow>
        tableOf (outputsAt s) (Outputs a) k = Some v \<or>
        tableOf (outputsAt s) (Outputs b) k = Some v) \<and>
     tableOf (resourcesAt (storeAfter ba)) (Resources a) =
       tableOf (resourcesAt (storeAfter ab)) (Resources b) \<and>
     tableOf (mappingsAt (storeAfter ba)) (Mappings a) =
       tableOf (mappingsAt (storeAfter ab)) (Mappings b) \<and>
     tableOf (outputsAt (storeAfter ba)) (Outputs a) =
       tableOf (outputsAt (storeAfter ab)) (Outputs b)"
proof -
  note chab = safeMergeTemplates_char [OF assms(1-3) assms(10)]
  note chba = safeMergeTemplates_char [OF assms(4-6) assms(11)]
  note tab = safeMergeTemplates_tables [OF assms(1-3) assms(10)]
  note tba = safeMergeTemplates_tables [OF assms(4-6) assms(11)]
  have eab: "mergeErrorsOf rka mka oka b s = []"
    unfolding mergeErrorsOf_empty [OF assms(1-3), of b] using assms(7-9) by simp
  have eba: "mergeErrorsOf rkb mkb okb a s = []"
    unfolding mergeErrorsOf_empty [OF assms(4-6), of a] using assms(7-9)
    by (simp add: Int_commute)
  have r1: "ending ab = Returned None" unfolding ab_def chab by (simp add: eab)
  have r2: "ending ba = Returned None" unfolding ba_def chba by (simp add: eba)
  have union: "(m ++ n) k = Some v \<longleftrightarrow> m k = Some v \<or> n k = Some v"
    if "dom m \<inter> dom n = {}" for m n :: "string \<rightharpoonup> 'x" and k v
    using that by (auto simp: map_add_def split: option.splits)
  have u1: "\<forall>k v. tableOf (resourcesAt (storeAfter ab)) (Resources b) k = Some v \<longleftrightarrow>
        tableOf (resourcesAt s) (Resources a) k = Some v \<or>
        tableOf (resourcesAt s) (Resources b) k = Some v"
    unfolding ab_def tab using union [OF assms(7)] by blast
  have u2: "\<forall>k v. tableOf (mappingsAt (storeAfter ab)) (Mappings b) k = Some v \<longleftrightarrow>
        tableOf (mappingsAt s) (Mappings a) k = Some v \<or>
        tableOf (mappingsAt s) (Mappings b) k = Some v"
    unfolding ab_def tab using union [OF assms(8)] by blast
  have u3: "\<forall>k v. tableOf (outputsAt (storeAfter ab)) (Outputs b) k = Some v \<longleftrightarrow>
        tableOf (outputsAt s) (Outputs a) k = Some v \<or>
        tableOf (outputsAt s) (Outputs b) k = Some v"
    unfolding ab_def tab using union [OF assms(9)] by blast
  have e1: "tableOf (resourcesAt (storeAfter ba)) (Resources a) =
      tableOf (resourcesAt (storeAfter ab)) (Resources b)"
    unfolding ab_def ba_def tab tba using assms(7) by (simp add: map_add_comm Int_commute)
  have e2: "tableOf (mappingsAt (storeAfter ba)) (Mappings a) =
      tableOf (mappingsAt (storeAfter ab)) (Mappings b)"
    unfolding ab_def ba_def tab tba using assms(8) by (simp add: map_add_comm Int_commute)
  have e3: "tableOf (outputsAt (storeAfter ba)) (Outputs a) =
      tableOf (outputsAt (storeAfter ab)) (Outputs b)"
    unfolding ab_def ba_def tab tba using assms(9) by (simp add: map_add_comm Int_commute)
  from r1 r2 u1 u2 u3 e1 e2 e3 show ?thesis by (intro conjI)
qed

lemma exDisjoint_facts:
  "rangeOrder (tableOf (resourcesAt exDisjoint) (Resources exSource)) [''A'', ''B'']"
  "rangeOrder (tableOf (mappingsAt exDisjoint) (Mappings exSource)) [''M'']"
  "rangeOrder (tableOf (outputsAt exDisjoint) (Outputs exSource)) [''P'', ''O'']"
  "rangeOrder (tableOf (resourcesAt exDisjoint) (Resources exDest)) [''C'']"
  "rangeOrder (tableOf (mappingsAt exDisjoint) (Mappings exDest)) []"
  "rangeOrder (tableOf (outputsAt exDisjoint) (Outputs exDest)) [''Q'']"
  "dom (tableOf (resourcesAt exDisjoint) (Resources exSource)) \<inter>
     dom (tableOf (resourcesAt exDisjoint) (Resources exDest)) = {}"
  "dom (tableOf (mappingsAt exDisjoint) (Mappings exSource)) \<inter>
     dom (tableOf (mappingsAt exDisjoint) (Mappings exDest)) = {}"
  "dom (tableOf (outputsAt exDisjoint) (Outputs exSource)) \<inter>
     dom (tableOf (outputsAt exDisjoint) (Outputs exDest)) = {}"
  "mergeable exDisjoint exSource exDest"
  "mergeable exDisjoint exDest exSource"
  by (auto simp: rangeOrder_def exDisjoint_def exSource_def exDest_def tableOf_def
      mergeable_def receives_def)

theorem safeMergeTemplates_disjoint_union_witness:
  "rangeOrder (tableOf (resourcesAt exDisjoint) (Resources exSource)) [''A'', ''B''] \<and>
   rangeOrder (tableOf (mappingsAt exDisjoint) (Mappings exSource)) [''M''] \<and>
   rangeOrder (tableOf (outputsAt exDisjoint) (Outputs exSource)) [''P'', ''O''] \<and>
   rangeOrder (tableOf (resourcesAt exDisjoint) (Resources exDest)) [''C''] \<and>
   rangeOrder (tableOf (mappingsAt exDisjoint) (Mappings exDest)) [] \<and>
   rangeOrder (tableOf (outputsAt exDisjoint) (Outputs exDest)) [''Q''] \<and>
   dom (tableOf (resourcesAt exDisjoint) (Resources exSource)) \<inter>
     dom (tableOf (resourcesAt exDisjoint) (Resources exDest)) = {} \<and>
   dom (tableOf (mappingsAt exDisjoint) (Mappings exSource)) \<inter>
     dom (tableOf (mappingsAt exDisjoint) (Mappings exDest)) = {} \<and>
   dom (tableOf (outputsAt exDisjoint) (Outputs exSource)) \<inter>
     dom (tableOf (outputsAt exDisjoint) (Outputs exDest)) = {} \<and>
   mergeable exDisjoint exSource exDest \<and>
   mergeable exDisjoint exDest exSource \<and>
   ending (safeMergeTemplates [''A'', ''B''] [''M''] [''P'', ''O''] exSource exDest exDisjoint) =
     Returned None \<and>
   ending (safeMergeTemplates [''C''] [] [''Q''] exDest exSource exDisjoint) = Returned None \<and>
   tableOf (resourcesAt (storeAfter (safeMergeTemplates [''C''] [] [''Q''] exDest exSource
       exDisjoint))) (Resources exSource) =
     tableOf (resourcesAt (storeAfter (safeMergeTemplates [''A'', ''B''] [''M''] [''P'', ''O'']
       exSource exDest exDisjoint))) (Resources exDest)"
  using safeMergeTemplates_disjoint_union [OF exDisjoint_facts]
  by (simp only: exDisjoint_facts simp_thms)

text \<open>
  The claim as written fails when a destination map is \<open>nil\<close>: the source and the zero
  template share no key, merging the zero template into the source succeeds, and
  merging the source into the zero template panics.
\<close>

theorem safeMergeTemplates_disjoint_union_counterexample:
  "rangeOrder (tableOf (resourcesAt exStore) (Resources exSource)) [''A'', ''B''] \<and>
   rangeOrder (tableOf (mappingsAt exStore) (Mappings exSource)) [''M''] \<and>
   rangeOrder (tableOf (outputsAt exStore) (Outputs exSource)) [''O'', ''P''] \<and>
   rangeOrder (tableOf (resourcesAt exStore) (Resources exZero)) [] \<and>
   rangeOrder (tableOf (mappingsAt exStore) (Mappings exZero)) [] \<and>
   rangeOrder (tableOf (outputsAt exStore) (Outputs exZero)) [] \<and>
   dom (tableOf (resourcesAt exStore) (Resources exSource)) \<inter>
     dom (tableOf (resourcesAt exStore) (Resources exZero)) = {} \<and>
   dom (tableOf (mappingsAt exStore) (Mappings exSource)) \<inter>
     dom (tableOf (mappingsAt exStore) (Mappings exZero)) = {} \<and>
   dom (tableOf (outputsAt exStore) (Outputs exSource)) \<inter>
     dom (tableOf (outputsAt exStore) (Outputs exZero)) = {} \<and>
   ending (safeMergeTemplates [] [] [] exZero exSource exStore) = Returned None \<and>
   ending (safeMergeTemplates [''A'', ''B''] [''M''] [''O'', ''P''] exSource exZero exStore) =
     Panicked ''assignment to entry in nil map''"
proof -
  have e: "ending (safeMergeTemplates [''A'', ''B''] [''M''] [''O'', ''P''] exSource exZero
      exStore) = Panicked ''assignment to entry in nil map''"
    by (simp add: safeMergeTemplates_def mergeRange_def mergeEntry_def exStore_def
        exSource_def exZero_def tableOf_def nilMapPanic_def)
  have f: "ending (safeMergeTemplates [] [] [] exZero exSource exStore) = Returned None"
    by (simp add: safeMergeTemplates_def mergeRange_def)
  show ?thesis
    by (simp add: exStore_orders e f) (simp add: exZero_def tableOf_def rangeOrder_def)
qed

section \<open>Claims about resourceOutputs\<close>

text \<open>
  For a struct the interface holds by value, the attribute list is the fixed one, in
  order.
\<close>

lemma resourceOutputs_by_value:
  "fst (resourceOutputs n (ByValue IAMRole)) = [] \<and>
   fst (resourceOutputs n (ByValue (DynamoDBTable (Some spec)))) = [''StreamArn''] \<and>
   fst (resourceOutputs n (ByValue (DynamoDBTable None))) = [] \<and>
   fst (resourceOutputs n (ByValue KinesisStream)) = [''Arn''] \<and>
   fst (resourceOutputs n (ByValue Route53RecordSet)) = [] \<and>
   fst (resourceOutputs n (ByValue S3Bucket)) = [''DomainName'', ''WebsiteURL''] \<and>
   fst (resourceOutputs n (ByValue SNSTopic)) = [''TopicName''] \<and>
   fst (resourceOutputs n (ByValue SQSQueue)) = [''Arn'', ''QueueName'']"
  by (simp add: resourceOutputs_def)

text \<open>
  C4. The claim fails on the code for a supported kind that the interface holds by
  pointer: a queue held by pointer takes the default case of the switch, so the
  resolver returns no attribute and logs the warning that discovery is not
  implemented for the type, where the policy table has Arn and QueueName. The same
  holds for a bucket, a topic, a stream and a table with a stream specification.
\<close>

theorem resourceOutputs_pointer_takes_default:
  "resourceOutputs ''MyQueue'' (ByPointer SQSQueue) =
     ([], None,
      [(''*cloudformation.SQSQueue'',
        ''Discovery information for dependency not yet implemented'')]) \<and>
   fst (resourceOutputs ''MyQueue'' (ByValue SQSQueue)) = [''Arn'', ''QueueName''] \<and>
   fst (resourceOutputs ''MyBucket'' (ByPointer S3Bucket)) = [] \<and>
   fst (resourceOutputs ''MyTopic'' (ByPointer SNSTopic)) = [] \<and>
   fst (resourceOutputs ''MyStream'' (ByPointer KinesisStream)) = [] \<and>
   fst (resourceOutputs ''MyTable'' (ByPointer (DynamoDBTable (Some ())))) = []"
  by (simp add: resourceOutputs_def notImplemented_def)

text \<open>
  C6. The resolver returns for every property value, with a \<open>nil\<close> error; for a type
  the switch does not name, the attribute list is empty and one warning that carries
  the type's name is logged.
\<close>

theorem resourceOutputs_total:
  "(\<exists>outs warns. resourceOutputs n p = (outs, None, warns)) \<and>
   (\<exists>msg. resourceOutputs n (ByValue (OtherStruct ty)) = ([], None, [(ty, msg)])) \<and>
   (\<exists>msg. resourceOutputs n (ByPointer t) = ([], None, [(''*'' @ structName t, msg)]))"
proof -
  have "\<exists>outs warns. resourceOutputs n p = (outs, None, warns)"
  proof (cases p)
    case (ByValue t)
    then show ?thesis
      by (cases t) (simp_all add: resourceOutputs_def notImplemented_def)
  next
    case (ByPointer t)
    then show ?thesis
      by (simp add: resourceOutputs_def notImplemented_def)
  qed
  then show ?thesis
    by (simp add: resourceOutputs_def notImplemented_def)
qed

section \<open>Claims about discoveryResourceInfoForDependency\<close>

text \<open>
  C7. For a logical name that the template's resources do not have, the result is
  \<open>nil\<close> bytes and a \<open>nil\<close> error, and nothing is logged.
\<close>

theorem discovery_absent_name:
  assumes "tableOf (resourcesAt s) (Resources cfTemplate) name = None"
  shows "discoveryResourceInfoForDependency cfn cfTemplate s name = (None, None, [])"
  using assms by (simp add: discoveryResourceInfoForDependency_def)

theorem discovery_absent_name_witness:
  "tableOf (resourcesAt exQueues) (Resources exSource) ''Other'' = None \<and>
   discoveryResourceInfoForDependency (\<lambda>_. ''AWS::SQS::Queue'') exSource exQueues ''Other'' =
     (None, None, [])"
proof -
  have h: "tableOf (resourcesAt exQueues) (Resources exSource) ''Other'' = None"
    by (simp add: exQueues_def exSource_def tableOf_def)
  from discovery_absent_name [OF h] h show ?thesis by simp
qed

lemma parse_discoveryData:
  \<open>parseTemplate discoveryDataForResourceDependency = Inr
     [TextNode (''\<newline>'' @ tab @ ''{\<newline>'' @ tab @ tab @ ''"ResourceID" : "''),
      ActionNode '' .ResourceID '',
      TextNode (''",\<newline>'' @ tab @ tab @ ''"ResourceRef" : "{"Ref":"''),
      ActionNode '' .ResourceID '',
      TextNode (''"}",\<newline>'' @ tab @ tab @ ''"ResourceType" : "''),
      ActionNode '' .ResourceType '',
      TextNode (''",\<newline>'' @ tab @ tab @ ''"Properties" : {\<newline>'' @ tab @ tab @ tab),
      ActionNode '' .ResourceProperties '',
      TextNode (''\<newline>'' @ tab @ tab @ ''}\<newline>'' @ tab @ ''}\<newline>'')]\<close>
  by (simp add: parseTemplate_def discoveryDataForResourceDependency_def tab_def)

lemma trimSpace_fields:
  "trimSpace '' .ResourceID '' = ''.ResourceID''"
  "trimSpace '' .ResourceType '' = ''.ResourceType''"
  "trimSpace '' .ResourceProperties '' = ''.ResourceProperties''"
  by (simp_all add: trimSpace_def)

lemma resourceOutputs_parts:
  "resourceOutputs n p = (fst (resourceOutputs n p), None, snd (snd (resourceOutputs n p)))"
proof (cases p)
  case (ByValue t)
  then show ?thesis
    by (cases t) (simp_all add: resourceOutputs_def notImplemented_def)
next
  case (ByPointer t)
  then show ?thesis
    by (simp add: resourceOutputs_def notImplemented_def)
qed

lemma execute_discoveryData:
  \<open>parseTemplate discoveryDataForResourceDependency = Inr nodes \<Longrightarrow>
   executeNodes \<lparr>ResourceID = rid, ResourceType = rty, ResourceProperties = props\<rparr> nodes [] =
     (''\<newline>'' @ tab @ ''{\<newline>'' @
      tab @ tab @ ''"ResourceID" : "'' @ rid @ ''",\<newline>'' @
      tab @ tab @ ''"ResourceRef" : "{"Ref":"'' @ rid @ ''"}",\<newline>'' @
      tab @ tab @ ''"ResourceType" : "'' @ rty @ ''",\<newline>'' @
      tab @ tab @ ''"Properties" : {\<newline>'' @
      tab @ tab @ tab @ props @ ''\<newline>'' @
      tab @ tab @ ''}\<newline>'' @
      tab @ ''}\<newline>'', None)\<close>
  unfolding parse_discoveryData
  by (auto simp: trimSpace_fields evalField_def)

text \<open>
  For a resource the template has, the bytes are the fixed document: the logical name
  as ResourceID, the Ref expression on the name as literal text inside the string
  value of ResourceRef, the type name, and in Properties one entry for each attribute
  of \<open>resourceOutputs\<close>, in order, joined by commas, each a Fn::GetAtt expression on the
  name and the attribute as literal text inside a string value. The error is \<open>nil\<close>.
\<close>

lemma discovery_document_shape:
  assumes \<open>tableOf (resourcesAt s) (Resources cfTemplate) name = Some item\<close>
  shows \<open>discoveryResourceInfoForDependency cfn cfTemplate s name =
     (Some (''\<newline>'' @ tab @ ''{\<newline>'' @
            tab @ tab @ ''"ResourceID" : "'' @ name @ ''",\<newline>'' @
            tab @ tab @ ''"ResourceRef" : "{"Ref":"'' @ name @ ''"}",\<newline>'' @
            tab @ tab @ ''"ResourceType" : "'' @ cfn (Properties item) @ ''",\<newline>'' @
            tab @ tab @ ''"Properties" : {\<newline>'' @
            tab @ tab @ tab @
              join (map (\<lambda>attr. ''"'' @ attr @ ''" :"{ "Fn::GetAtt" : [ "'' @ name @
                                 ''", "'' @ attr @ ''" ] }"'')
                      (fst (resourceOutputs name (Properties item)))) '','' @
              ''\<newline>'' @
            tab @ tab @ ''}\<newline>'' @
            tab @ ''}\<newline>''),
      None, snd (snd (resourceOutputs name (Properties item))))\<close>
proof -
  obtain nodes where nodes: "parseTemplate discoveryDataForResourceDependency = Inr nodes"
    using parse_discoveryData by blast
  have q: \<open>quotedAttr name = (\<lambda>attr. ''"'' @ attr @ ''" :"{ "Fn::GetAtt" : [ "'' @ name @
                                 ''", "'' @ attr @ ''" ] }"'')\<close>
    by (rule ext) (simp add: quotedAttr_def)
  have doc: ?thesis if "resourceOutputs name (Properties item) = (outs, None, warns)"
    for outs warns
    using assms that
    by (simp add: discoveryResourceInfoForDependency_def nodes execute_discoveryData [OF nodes] q)
  from doc [OF resourceOutputs_parts] show ?thesis .
qed

text \<open>The document of the queue MyQueue when the interface holds the struct by value.\<close>

lemma discovery_queue_by_value:
  \<open>discoveryResourceInfoForDependency (\<lambda>_. ''AWS::SQS::Queue'') exSource exQueues ''MyQueue'' =
     (Some (''\<newline>'' @ tab @ ''{\<newline>'' @
            tab @ tab @ ''"ResourceID" : "MyQueue",\<newline>'' @
            tab @ tab @ ''"ResourceRef" : "{"Ref":"MyQueue"}",\<newline>'' @
            tab @ tab @ ''"ResourceType" : "AWS::SQS::Queue",\<newline>'' @
            tab @ tab @ ''"Properties" : {\<newline>'' @
            tab @ tab @ tab @ ''"Arn" :"{ "Fn::GetAtt" : [ "MyQueue", "Arn" ] }",'' @
              ''"QueueName" :"{ "Fn::GetAtt" : [ "MyQueue", "QueueName" ] }"\<newline>'' @
            tab @ tab @ ''}\<newline>'' @
            tab @ ''}\<newline>''),
      None, [])\<close>
proof -
  have h: "tableOf (resourcesAt exQueues) (Resources exSource) ''MyQueue'' =
      Some \<lparr>Properties = ByValue SQSQueue\<rparr>"
    by (simp add: exQueues_def exSource_def tableOf_def)
  from discovery_document_shape [OF h, of "\<lambda>_. ''AWS::SQS::Queue''"]
  show ?thesis
    by (simp add: resourceOutputs_def)
qed

text \<open>
  C5. The claim fails on the code for a queue that the interface holds by pointer:
  \<open>resourceOutputs\<close> gives it no attribute, so the document of the queue MyQueue has
  an empty Properties block, where the claim has the two entries Arn and QueueName.
  The rest of the document is the fixed shape.
\<close>

theorem discovery_queue_by_pointer:
  \<open>tableOf (resourcesAt exQueues) (Resources exDest) ''MyQueue'' =
     Some \<lparr>Properties = ByPointer SQSQueue\<rparr> \<and>
   discoveryResourceInfoForDependency (\<lambda>_. ''AWS::SQS::Queue'') exDest exQueues ''MyQueue'' =
     (Some (''\<newline>'' @ tab @ ''{\<newline>'' @
            tab @ tab @ ''"ResourceID" : "MyQueue",\<newline>'' @
            tab @ tab @ ''"ResourceRef" : "{"Ref":"MyQueue"}",\<newline>'' @
            tab @ tab @ ''"ResourceType" : "AWS::SQS::Queue",\<newline>'' @
            tab @ tab @ ''"Properties" : {\<newline>'' @
            tab @ tab @ tab @ ''\<newline>'' @
            tab @ tab @ ''}\<newline>'' @
            tab @ ''}\<newline>''),
      None,
      [(''*cloudformation.SQSQueue'',
        ''Discovery information for dependency not yet implemented'')])\<close>
proof -
  have h: "tableOf (resourcesAt exQueues) (Resources exDest) ''MyQueue'' =
      Some \<lparr>Properties = ByPointer SQSQueue\<rparr>"
    by (simp add: exQueues_def exDest_def tableOf_def)
  from discovery_document_shape [OF h, of "\<lambda>_. ''AWS::SQS::Queue''"] h
  show ?thesis
    by (simp add: resourceOutputs_def notImplemented_def)
qed

section \<open>Claims about newCloudFormationResource\<close>

text \<open>
  C9. When the factory has no property object for the type name, the call does not
  return to its caller: the process exits with status 1.
\<close>

theorem newCloudFormationResource_unsupported_exits:
  "newCloudFormationResource (\<lambda>_. None) ''AWS::Unknown::Kind'' = Exits 1 \<and>
   (\<forall>r. newCloudFormationResource (\<lambda>_. None) ''AWS::Unknown::Kind'' \<noteq> Returns r)"
  by (simp add: newCloudFormationResource_def loggerFatal_def)

end
